theory Spec2Isabelle
  imports Main "HOL-Library.Char_ord" "HOL-Library.List_Lexorder" "HOL-Library.Multiset"
begin

section \<open>The schema tree of tfsdk/attribute.go\<close>

subsection \<open>Attribute paths and diagnostics\<close>

text \<open>
  A \<^verbatim>\<open>*tftypes.AttributePath\<close> is a sequence of steps; the three \<^verbatim>\<open>With...\<close> methods
  return a new path with one more step at the end.
\<close>

datatype AttributePathStep =
    AttributeName string
  | ElementKeyInt int
  | ElementKeyString string

type_synonym AttributePath = "AttributePathStep list"

definition WithAttributeName :: "AttributePath \<Rightarrow> string \<Rightarrow> AttributePath" where
  "WithAttributeName p name = p @ [AttributeName name]"

definition WithElementKeyInt :: "AttributePath \<Rightarrow> int \<Rightarrow> AttributePath" where
  "WithElementKeyInt p i = p @ [ElementKeyInt i]"

definition WithElementKeyString :: "AttributePath \<Rightarrow> string \<Rightarrow> AttributePath" where
  "WithElementKeyString p k = p @ [ElementKeyString k]"

datatype DiagnosticSeverity =
    DiagnosticSeverityInvalid
  | DiagnosticSeverityError
  | DiagnosticSeverityWarning

text \<open>\<^verbatim>\<open>tfprotov6.Diagnostic\<close>: the field \<open>Attribute\<close> is the path the diagnostic is anchored at.\<close>

record Diagnostic =
  Severity :: DiagnosticSeverity
  Summary :: string
  Detail :: string
  Attribute :: AttributePath

text \<open>
  Modelled from the spec: \<^verbatim>\<open>diagnostics.DiagsHasErrors\<close> (package internal/diagnostics is
  not among the sources): true when the list holds a diagnostic of error severity.
\<close>

definition DiagsHasErrors :: "Diagnostic list \<Rightarrow> bool" where
  "DiagsHasErrors diags = list_ex (\<lambda>d. Severity d = DiagnosticSeverityError) diags"

subsection \<open>Attribute and NestedAttributes\<close>

text \<open>
  Modelled from the spec: the nesting modes (declared in tfsdk/nested_attributes.go, not
  among the sources) are single, list, set and map; \<open>NestingModeUnknown\<close> stands for
  every other value, the one the \<^verbatim>\<open>default\<close> branches of the source catch.
\<close>

datatype NestingMode =
    NestingModeUnknown
  | NestingModeSingle
  | NestingModeList
  | NestingModeSet
  | NestingModeMap

text \<open>
  \<^verbatim>\<open>Attribute\<close> is the struct of the source. \<open>Type\<close> and \<open>Attributes\<close> are interface
  values, \<open>None\<close> when nil. \<^verbatim>\<open>NestedAttributes\<close> is an interface; what this file reads of
  it are its four getters, so an implementation is given by their results. The children
  are a Go map from names to attributes: the association list holds its entries in the
  order in which a \<^verbatim>\<open>range\<close> loop happens to visit them. The element types of
  \<open>Validators\<close> and \<open>PlanModifiers\<close> are parameters; the walks below fix them.
\<close>

datatype ('t, 'v, 'm) Attribute =
  MakeAttribute
    (Type: "'t option")
    (Attributes: "('t, 'v, 'm) NestedAttributes option")
    (Description: string)
    (MarkdownDescription: string)
    (Required: bool)
    (Optional: bool)
    (Computed: bool)
    (Sensitive: bool)
    (DeprecationMessage: string)
    (Validators: "'v list")
    (PlanModifiers: "'m list")
and ('t, 'v, 'm) NestedAttributes =
  MakeNestedAttributes
    (GetNestingMode: NestingMode)
    (GetAttributes: "(string \<times> ('t, 'v, 'm) Attribute) list")
    (GetMinItems: int)
    (GetMaxItems: int)

subsection \<open>Equal\<close>

text \<open>
  \<^verbatim>\<open>Attribute.Equal\<close> (lines 100-137). The two \<^verbatim>\<open>Equal\<close> methods it calls belong to the
  interfaces \<^verbatim>\<open>attr.Type\<close> and \<^verbatim>\<open>NestedAttributes\<close>, implemented outside this file; they
  are the parameters \<open>TypeEqual\<close> and \<open>AttributesEqual\<close>.
\<close>

definition Equal ::
  "('t \<Rightarrow> 't \<Rightarrow> bool) \<Rightarrow>
   (('t, 'v, 'm) NestedAttributes \<Rightarrow> ('t, 'v, 'm) NestedAttributes \<Rightarrow> bool) \<Rightarrow>
   ('t, 'v, 'm) Attribute \<Rightarrow> ('t, 'v, 'm) Attribute \<Rightarrow> bool" where
  "Equal TypeEqual AttributesEqual a o' =
    (if Type a = None \<and> Type o' \<noteq> None then False
     else if Type a \<noteq> None \<and> Type o' = None then False
     else if Type a \<noteq> None \<and> Type o' \<noteq> None \<and> \<not> TypeEqual (the (Type a)) (the (Type o')) then False
     else if Attributes a = None \<and> Attributes o' \<noteq> None then False
     else if Attributes a \<noteq> None \<and> Attributes o' = None then False
     else if Attributes a \<noteq> None \<and> Attributes o' \<noteq> None
             \<and> \<not> AttributesEqual (the (Attributes a)) (the (Attributes o')) then False
     else if Description a \<noteq> Description o' then False
     else if MarkdownDescription a \<noteq> MarkdownDescription o' then False
     else if Required a \<noteq> Required o' then False
     else if Optional a \<noteq> Optional o' then False
     else if Computed a \<noteq> Computed o' then False
     else if Sensitive a \<noteq> Sensitive o' then False
     else if DeprecationMessage a \<noteq> DeprecationMessage o' then False
     else True)"

subsection \<open>The protocol schema\<close>

text \<open>
  \<^verbatim>\<open>tfprotov6.SchemaAttribute\<close> and \<^verbatim>\<open>tfprotov6.SchemaObject\<close>, with the fields in the order
  of their declaration. The selectors carry the prefix \<open>Schema\<close> or \<open>Object\<close>. The
  children of a \<^verbatim>\<open>SchemaObject\<close> are pointers: \<open>None\<close> is a nil entry.
\<close>

datatype StringKind = StringKindPlain | StringKindMarkdown

datatype SchemaObjectNestingMode =
    SchemaObjectNestingModeInvalid
  | SchemaObjectNestingModeSingle
  | SchemaObjectNestingModeList
  | SchemaObjectNestingModeSet
  | SchemaObjectNestingModeMap

datatype 'w SchemaAttribute =
  MakeSchemaAttribute
    (SchemaName: string)
    (SchemaType: "'w option")
    (SchemaNestedType: "'w SchemaObject option")
    (SchemaDescription: string)
    (SchemaRequired: bool)
    (SchemaOptional: bool)
    (SchemaComputed: bool)
    (SchemaSensitive: bool)
    (SchemaDescriptionKind: StringKind)
    (SchemaDeprecated: bool)
and 'w SchemaObject =
  MakeSchemaObject
    (ObjectAttributes: "'w SchemaAttribute option list")
    (ObjectNesting: SchemaObjectNestingMode)
    (ObjectMinItems: int)
    (ObjectMaxItems: int)

text \<open>
  The error of \<^verbatim>\<open>path.NewErrorf(format, args...)\<close>: the path, the format string and the
  arguments (only a nesting mode is ever formatted).
\<close>

datatype AttributePathError = NewErrorf AttributePath string "NestingMode list"

text \<open>The \<^verbatim>\<open>switch nm\<close> of lines 184-195; \<open>None\<close> is its \<^verbatim>\<open>default\<close> branch.\<close>

definition object_Nesting :: "NestingMode \<Rightarrow> SchemaObjectNestingMode option" where
  "object_Nesting nm =
    (case nm of
       NestingModeSingle \<Rightarrow> Some SchemaObjectNestingModeSingle
     | NestingModeList \<Rightarrow> Some SchemaObjectNestingModeList
     | NestingModeSet \<Rightarrow> Some SchemaObjectNestingModeSet
     | NestingModeMap \<Rightarrow> Some SchemaObjectNestingModeMap
     | _ \<Rightarrow> None)"

text \<open>
  The comparison handed to \<^verbatim>\<open>sort.Slice\<close> (lines 207-217), on the entries themselves.
  Go compares strings byte by byte, which is the lexicographic order of \<open>string\<close>.
\<close>

definition less_Attributes :: "'w SchemaAttribute option \<Rightarrow> 'w SchemaAttribute option \<Rightarrow> bool" where
  "less_Attributes x y =
    (if x = None then True
     else if y = None then False
     else SchemaName (the x) < SchemaName (the y))"

text \<open>
  \<^verbatim>\<open>sort.Slice\<close> is the sort of Go's standard library, which promises a sorted
  permutation and no stability. It is modelled by insertion sort with the same
  comparison.
\<close>

fun insert_Slice :: "('a \<Rightarrow> 'a \<Rightarrow> bool) \<Rightarrow> 'a \<Rightarrow> 'a list \<Rightarrow> 'a list" where
  "insert_Slice lt x [] = [x]"
| "insert_Slice lt x (y # ys) =
    (if lt x y then x # y # ys else y # insert_Slice lt x ys)"

definition sort_Slice :: "('a \<Rightarrow> 'a \<Rightarrow> bool) \<Rightarrow> 'a list \<Rightarrow> 'a list" where
  "sort_Slice lt xs = foldr (insert_Slice lt) xs []"

text \<open>
  \<^verbatim>\<open>Attribute.tfprotov6SchemaAttribute\<close> (lines 142-222). \<open>TerraformType\<close> is the method of
  the interface \<^verbatim>\<open>attr.Type\<close>. \<open>Inl\<close> is the result \<^verbatim>\<open>(nil, err)\<close>, \<open>Inr\<close> the result
  \<^verbatim>\<open>(schemaAttribute, nil)\<close>. \<open>nested_Attributes\<close> is the loop of lines 197-205 over
  the children still to visit, with \<^verbatim>\<open>object.Attributes\<close> as accumulator.
\<close>

function
  tfprotov6SchemaAttribute ::
    "('t \<Rightarrow> 'w) \<Rightarrow> ('t, 'v, 'm) Attribute \<Rightarrow> string \<Rightarrow> AttributePath
      \<Rightarrow> AttributePathError + 'w SchemaAttribute"
and
  nested_Attributes ::
    "('t \<Rightarrow> 'w) \<Rightarrow> (string \<times> ('t, 'v, 'm) Attribute) list \<Rightarrow> AttributePath
      \<Rightarrow> 'w SchemaAttribute option list \<Rightarrow> AttributePathError + 'w SchemaAttribute option list"
where
  "tfprotov6SchemaAttribute TerraformType a name path =
    (let deprecated = (DeprecationMessage a \<noteq> '''');
         plain = (if Description a \<noteq> '''' then (Description a, StringKindPlain)
                  else ('''', StringKindPlain));
         described = (if MarkdownDescription a \<noteq> ''''
                      then (MarkdownDescription a, StringKindMarkdown) else plain);
         schemaAttribute = (\<lambda>ty nested.
            MakeSchemaAttribute name ty nested (fst described) (Required a) (Optional a)
              (Computed a) (Sensitive a) (snd described) deprecated)
     in
     if Attributes a \<noteq> None \<and> length (GetAttributes (the (Attributes a))) > 0 \<and> Type a \<noteq> None
     then Inl (NewErrorf path ''can't have both Attributes and Type set'' [])
     else if (Attributes a = None \<or> length (GetAttributes (the (Attributes a))) < 1) \<and> Type a = None
     then Inl (NewErrorf path ''must have Attributes or Type set'' [])
     else if Type a \<noteq> None
     then Inr (schemaAttribute (Some (TerraformType (the (Type a)))) None)
     else
       (let nm = GetNestingMode (the (Attributes a)) in
        case object_Nesting nm of
          None \<Rightarrow> Inl (NewErrorf path ''unrecognized nesting mode %v'' [nm])
        | Some nesting \<Rightarrow>
            (case nested_Attributes TerraformType (GetAttributes (the (Attributes a))) path [] of
               Inl err \<Rightarrow> Inl err
             | Inr attributes \<Rightarrow>
                 Inr (schemaAttribute None
                   (Some (MakeSchemaObject (sort_Slice less_Attributes attributes) nesting
                      (GetMinItems (the (Attributes a))) (GetMaxItems (the (Attributes a)))))))))"
| "nested_Attributes TerraformType [] path attributes = Inr attributes"
| "nested_Attributes TerraformType ((nestedName, nestedA) # rest) path attributes =
    (case tfprotov6SchemaAttribute TerraformType nestedA nestedName
            (WithAttributeName path nestedName) of
       Inl err \<Rightarrow> Inl err
     | Inr nestedSchemaAttribute \<Rightarrow>
         nested_Attributes TerraformType rest path (attributes @ [Some nestedSchemaAttribute]))"
  by pat_completeness auto

termination tfprotov6SchemaAttribute
proof (relation "measure (\<lambda>x. case x of
          Inl (_, a, _, _) \<Rightarrow> 2 * size a
        | Inr (_, kids, _, _) \<Rightarrow> 2 * size_list (size_prod (\<lambda>_. 0) size) kids + 1)", goal_cases)
  case 1
  show ?case by simp
next
  case (2 TerraformType a name path)
  show ?case
  proof (cases a)
    case (MakeAttribute ty attrs d md r op c s dm vs ps)
    with 2 show ?thesis
      by (cases attrs; cases "the attrs") simp_all
  qed
next
  case 3
  then show ?case by simp
next
  case 4
  then show ?case by simp
qed

subsection \<open>Values, requests and responses\<close>

text \<open>
  \<^verbatim>\<open>attr.Value\<close> is an interface implemented in package types, outside this file. The
  walk inspects a value in two ways: the type assertions \<^verbatim>\<open>.(types.List)\<close> and
  \<^verbatim>\<open>.(types.Map)\<close> with the field \<^verbatim>\<open>Elems\<close>, and the method \<^verbatim>\<open>ToTerraformValue\<close>. The
  first is the constructor of the value; the second is a parameter of the walk. \<open>'x\<close> is
  whatever else an implementation stores (its null and unknown flags, its content).
  A nil \<^verbatim>\<open>attr.Value\<close> is \<open>None\<close>.
\<close>

datatype 'x Value =
    types_List (Elems: "'x Value list") 'x
  | types_Map (MapElems: "(string \<times> 'x Value) list") 'x
  | other_Value 'x

text \<open>
  \<^verbatim>\<open>Config\<close>, \<^verbatim>\<open>State\<close> and \<^verbatim>\<open>Plan\<close> are used through their method \<^verbatim>\<open>GetAttribute\<close> only,
  which gives a value and diagnostics for a path.
\<close>

type_synonym 'x GetAttribute = "AttributePath \<Rightarrow> 'x Value option \<times> Diagnostic list"

record 'x ValidateAttributeRequest =
  AttributePath :: AttributePath
  AttributeConfig :: "'x Value option"
  Config :: "'x GetAttribute"

record ValidateAttributeResponse =
  Diagnostics :: "Diagnostic list"

text \<open>
  An \<^verbatim>\<open>AttributeValidator\<close> is its method \<^verbatim>\<open>Validate(ctx, req, resp)\<close>: it reads the request
  and leaves its result in the response, passed by pointer.
\<close>

type_synonym 'x AttributeValidator =
  "'x ValidateAttributeRequest \<Rightarrow> ValidateAttributeResponse \<Rightarrow> ValidateAttributeResponse"

text \<open>
  The fields of \<^verbatim>\<open>ModifyAttributePlanRequest\<close> and \<^verbatim>\<open>ModifyAttributePlanResponse\<close> carry
  the prefixes \<open>Req\<close> and \<open>Resp\<close>.
\<close>

record 'x ModifyAttributePlanRequest =
  ReqAttributePath :: AttributePath
  ReqConfig :: "'x GetAttribute"
  ReqState :: "'x GetAttribute"
  ReqPlan :: "'x GetAttribute"
  ReqAttributeConfig :: "'x Value option"
  ReqAttributeState :: "'x Value option"
  ReqAttributePlan :: "'x Value option"
  ReqProviderMeta :: "'x GetAttribute"

record 'x ModifyAttributePlanResponse =
  RespAttributePlan :: "'x Value option"
  RespDiagnostics :: "Diagnostic list"
  RespRequiresReplace :: bool

type_synonym 'x AttributePlanModifier =
  "'x ModifyAttributePlanRequest \<Rightarrow> 'x ModifyAttributePlanResponse \<Rightarrow> 'x ModifyAttributePlanResponse"

text \<open>
  The arguments of the two \<^verbatim>\<open>fmt.Errorf\<close> calls of \<^verbatim>\<open>validate\<close>. How \<^verbatim>\<open>fmt\<close> renders them
  (\<^verbatim>\<open>%T\<close>, \<^verbatim>\<open>%v\<close>, \<^verbatim>\<open>%s\<close>) is a parameter \<open>Errorf\<close> of the walk, which gives the text of
  \<^verbatim>\<open>err.Error()\<close>.
\<close>

datatype 'x fmt_arg =
    ArgValue "'x Value option"
  | ArgNestingMode NestingMode
  | ArgPath AttributePath

subsection \<open>validate\<close>

text \<open>
  Lines 355-377 of \<^verbatim>\<open>validate\<close>: the deprecation warning. \<open>ToTerraformValue\<close> gives
  \<open>Inl\<close> of the error text when \<^verbatim>\<open>err != nil\<close>, else \<open>Inr\<close> of the value, \<open>None\<close> when nil.
\<close>

definition deprecation ::
  "('x Value \<Rightarrow> string + 'f option) \<Rightarrow> ('t, 'v, 'm) Attribute \<Rightarrow> 'x ValidateAttributeRequest
    \<Rightarrow> 'x Value option \<Rightarrow> ValidateAttributeResponse \<Rightarrow> ValidateAttributeResponse" where
  "deprecation ToTerraformValue a req attributeConfig resp =
    (if DeprecationMessage a \<noteq> '''' \<and> attributeConfig \<noteq> None then
       (case ToTerraformValue (the attributeConfig) of
          Inl err \<Rightarrow>
            resp\<lparr>Diagnostics := Diagnostics resp @
              [\<lparr>Severity = DiagnosticSeverityError,
                Summary = ''Attribute Validation Error'',
                Detail = ''Attribute validation cannot convert value. Report this to the provider developer:\<newline>\<newline>'' @ err,
                Attribute = AttributePath req\<rparr>]\<rparr>
        | Inr tfValue \<Rightarrow>
            if tfValue \<noteq> None then
              resp\<lparr>Diagnostics := Diagnostics resp @
                [\<lparr>Severity = DiagnosticSeverityWarning,
                  Summary = ''Attribute Deprecated'',
                  Detail = DeprecationMessage a,
                  Attribute = AttributePath req\<rparr>]\<rparr>
            else resp)
     else resp)"

text \<open>The diagnostic of lines 270-275, 303-308 and 344-349, for the error \<open>err\<close>.\<close>

definition cannot_walk :: "string \<Rightarrow> AttributePath \<Rightarrow> Diagnostic" where
  "cannot_walk err path =
    \<lparr>Severity = DiagnosticSeverityError,
     Summary = ''Attribute Validation Error'',
     Detail = ''Attribute validation cannot walk schema. Report this to the provider developer:\<newline>\<newline>'' @ err,
     Attribute = path\<rparr>"

text \<open>
  \<^verbatim>\<open>Attribute.validate\<close> (lines 225-378), with the response passed and returned.
  \<open>validate\<close> is the function up to the resolution of the value (lines 225-256);
  \<open>validate_resolved\<close> is the rest (lines 258-377), entered with \<^verbatim>\<open>req.AttributeConfig\<close>
  set; \<open>nested_validate\<close> is the loop \<^verbatim>\<open>for nestedName, nestedAttr := range ...\<close> of lines
  281-293, 314-326 and 329-341 over the children still to visit, where \<open>path\<close> is the
  path the child's name is added to. In \<open>validate_resolved\<close> the switch gives \<open>Inl\<close> where
  the source returns and \<open>Inr\<close> where it goes on to the deprecation warning.
\<close>

function
  validate ::
    "('x Value \<Rightarrow> string + 'f option) \<Rightarrow> (string \<Rightarrow> 'x fmt_arg list \<Rightarrow> string)
      \<Rightarrow> ('t, 'x AttributeValidator, 'm) Attribute
      \<Rightarrow> 'x ValidateAttributeRequest \<Rightarrow> ValidateAttributeResponse \<Rightarrow> ValidateAttributeResponse"
and
  validate_resolved ::
    "('x Value \<Rightarrow> string + 'f option) \<Rightarrow> (string \<Rightarrow> 'x fmt_arg list \<Rightarrow> string)
      \<Rightarrow> ('t, 'x AttributeValidator, 'm) Attribute
      \<Rightarrow> 'x ValidateAttributeRequest \<Rightarrow> ValidateAttributeResponse \<Rightarrow> ValidateAttributeResponse"
and
  nested_validate ::
    "('x Value \<Rightarrow> string + 'f option) \<Rightarrow> (string \<Rightarrow> 'x fmt_arg list \<Rightarrow> string)
      \<Rightarrow> (string \<times> ('t, 'x AttributeValidator, 'm) Attribute) list
      \<Rightarrow> AttributePath \<Rightarrow> 'x GetAttribute \<Rightarrow> ValidateAttributeResponse \<Rightarrow> ValidateAttributeResponse"
where
  "validate ToTerraformValue Errorf a req resp =
    (if (Attributes a = None \<or> length (GetAttributes (the (Attributes a))) = 0) \<and> Type a = None
     then
       resp\<lparr>Diagnostics := Diagnostics resp @
         [\<lparr>Severity = DiagnosticSeverityError,
           Summary = ''Invalid Attribute Definition'',
           Detail = ''Attribute must define either Attributes or Type. This is always a problem with the provider and should be reported to the provider developer.'',
           Attribute = AttributePath req\<rparr>]\<rparr>
     else if Attributes a \<noteq> None \<and> length (GetAttributes (the (Attributes a))) > 0 \<and> Type a \<noteq> None
     then
       resp\<lparr>Diagnostics := Diagnostics resp @
         [\<lparr>Severity = DiagnosticSeverityError,
           Summary = ''Invalid Attribute Definition'',
           Detail = ''Attribute cannot define both Attributes and Type. This is always a problem with the provider and should be reported to the provider developer.'',
           Attribute = AttributePath req\<rparr>]\<rparr>
     else
       (let attributeConfig = fst (Config req (AttributePath req));
            diags = snd (Config req (AttributePath req));
            resp = resp\<lparr>Diagnostics := Diagnostics resp @ diags\<rparr>
        in
        if DiagsHasErrors diags then resp
        else validate_resolved ToTerraformValue Errorf a
               (req\<lparr>AttributeConfig := attributeConfig\<rparr>) resp))"
| "validate_resolved ToTerraformValue Errorf a req resp =
    (let resp = fold (\<lambda>validator resp. validator req resp) (Validators a) resp;
         walked =
           (if Attributes a \<noteq> None then
              (let nm = GetNestingMode (the (Attributes a)) in
               case nm of
                 NestingModeList \<Rightarrow>
                   (case AttributeConfig req of
                      Some (types_List elems x) \<Rightarrow>
                        Inr (fold (\<lambda>idx resp.
                               nested_validate ToTerraformValue Errorf
                                 (GetAttributes (the (Attributes a)))
                                 (WithElementKeyInt (AttributePath req) (int idx))
                                 (Config req) resp)
                             [0 ..< length elems] resp)
                    | _ \<Rightarrow>
                        Inl (resp\<lparr>Diagnostics := Diagnostics resp @
                          [cannot_walk
                            (Errorf ''unknown attribute value type (%T) for nesting mode (%T) at path: %s''
                              [ArgValue (AttributeConfig req), ArgNestingMode nm,
                               ArgPath (AttributePath req)])
                            (AttributePath req)]\<rparr>))
               | NestingModeSet \<Rightarrow> Inr resp
               | NestingModeMap \<Rightarrow>
                   (case AttributeConfig req of
                      Some (types_Map elems x) \<Rightarrow>
                        Inr (fold (\<lambda>key resp.
                               nested_validate ToTerraformValue Errorf
                                 (GetAttributes (the (Attributes a)))
                                 (WithElementKeyString (AttributePath req) key)
                                 (Config req) resp)
                             (map fst elems) resp)
                    | _ \<Rightarrow>
                        Inl (resp\<lparr>Diagnostics := Diagnostics resp @
                          [cannot_walk
                            (Errorf ''unknown attribute value type (%T) for nesting mode (%T) at path: %s''
                              [ArgValue (AttributeConfig req), ArgNestingMode nm,
                               ArgPath (AttributePath req)])
                            (AttributePath req)]\<rparr>))
               | NestingModeSingle \<Rightarrow>
                   Inr (nested_validate ToTerraformValue Errorf
                          (GetAttributes (the (Attributes a))) (AttributePath req)
                          (Config req) resp)
               | _ \<Rightarrow>
                   Inl (resp\<lparr>Diagnostics := Diagnostics resp @
                     [cannot_walk
                       (Errorf ''unknown attribute validation nesting mode (%T: %v) at path: %s''
                         [ArgNestingMode nm, ArgNestingMode nm, ArgPath (AttributePath req)])
                       (AttributePath req)]\<rparr>))
            else Inr resp)
     in
     case walked of
       Inl resp \<Rightarrow> resp
     | Inr resp \<Rightarrow> deprecation ToTerraformValue a req (AttributeConfig req) resp)"
| "nested_validate ToTerraformValue Errorf [] path config resp = resp"
| "nested_validate ToTerraformValue Errorf ((nestedName, nestedAttr) # rest) path config resp =
    (let nestedAttrReq =
           \<lparr>AttributePath = WithAttributeName path nestedName,
            AttributeConfig = None,
            Config = config\<rparr>;
         nestedAttrResp = \<lparr>Diagnostics = Diagnostics resp\<rparr>;
         nestedAttrResp = validate ToTerraformValue Errorf nestedAttr nestedAttrReq nestedAttrResp;
         resp = resp\<lparr>Diagnostics := Diagnostics nestedAttrResp\<rparr>
     in nested_validate ToTerraformValue Errorf rest path config resp)"
  by pat_completeness auto

termination validate
proof (relation "measure (\<lambda>x. case x of
          Inl (_, _, a, _, _) \<Rightarrow> 3 * size a + 2
        | Inr (Inl (_, _, a, _, _)) \<Rightarrow> 3 * size a + 1
        | Inr (Inr (_, _, kids, _, _, _)) \<Rightarrow> 3 * size_list (size_prod (\<lambda>_. 0) size) kids)",
    goal_cases)
  case 1
  show ?case by simp
next
  case 2
  then show ?case by simp
next
  case (3 T E a req resp)
  show ?case
    by (cases a; cases "Attributes a"; cases "the (Attributes a)") (use 3 in simp_all)
next
  case (4 T E a req resp)
  show ?case
    by (cases a; cases "Attributes a"; cases "the (Attributes a)") (use 4 in simp_all)
next
  case (5 T E a req resp)
  show ?case
    by (cases a; cases "Attributes a"; cases "the (Attributes a)") (use 5 in simp_all)
next
  case 6
  then show ?case by simp
next
  case 7
  then show ?case by simp
qed

subsection \<open>modifyPlan\<close>

text \<open>
  The loop of lines 413-419 over the plan modifiers still to run: each one is called with
  \<open>modifyReq\<close> and the response, then \<^verbatim>\<open>modifyReq.AttributePlan\<close> takes the plan value of the
  response, and the function returns when the response's diagnostics hold an error.
\<close>

fun run_PlanModifiers ::
  "'x AttributePlanModifier list \<Rightarrow> 'x ModifyAttributePlanRequest
    \<Rightarrow> 'x ModifyAttributePlanResponse \<Rightarrow> 'x ModifyAttributePlanResponse" where
  "run_PlanModifiers [] modifyReq resp = resp"
| "run_PlanModifiers (planModifier # rest) modifyReq resp =
    (let resp = planModifier modifyReq resp;
         modifyReq = modifyReq\<lparr>ReqAttributePlan := RespAttributePlan resp\<rparr>
     in
     if DiagsHasErrors (RespDiagnostics resp) then resp
     else run_PlanModifiers rest modifyReq resp)"

text \<open>
  Lines 382-412 of \<^verbatim>\<open>modifyPlan\<close>: the three values are read at \<^verbatim>\<open>req.AttributePath\<close>, each
  one's diagnostics are appended to the response, and an error among them returns the
  response at once (\<open>Inl\<close>). Otherwise the result is \<open>modifyReq\<close> and the response (\<open>Inr\<close>).
\<close>

definition resolve ::
  "'x ModifyAttributePlanRequest \<Rightarrow> 'x ModifyAttributePlanResponse
    \<Rightarrow> 'x ModifyAttributePlanResponse
        + 'x ModifyAttributePlanRequest \<times> 'x ModifyAttributePlanResponse" where
  "resolve req resp =
    (let attrConfig = fst (ReqConfig req (ReqAttributePath req));
         diags = snd (ReqConfig req (ReqAttributePath req));
         resp = resp\<lparr>RespDiagnostics := RespDiagnostics resp @ diags\<rparr>
     in
     if DiagsHasErrors diags then Inl resp
     else
       (let req = req\<lparr>ReqAttributeConfig := attrConfig\<rparr>;
            attrState = fst (ReqState req (ReqAttributePath req));
            diags = snd (ReqState req (ReqAttributePath req));
            resp = resp\<lparr>RespDiagnostics := RespDiagnostics resp @ diags\<rparr>
        in
        if DiagsHasErrors diags then Inl resp
        else
          (let req = req\<lparr>ReqAttributeState := attrState\<rparr>;
               attrPlan = fst (ReqPlan req (ReqAttributePath req));
               diags = snd (ReqPlan req (ReqAttributePath req));
               resp = resp\<lparr>RespDiagnostics := RespDiagnostics resp @ diags\<rparr>
           in
           if DiagsHasErrors diags then Inl resp
           else
             (let req = req\<lparr>ReqAttributePlan := attrPlan\<rparr>;
                  modifyReq =
                    \<lparr>ReqAttributePath = ReqAttributePath req,
                     ReqConfig = ReqConfig req,
                     ReqState = ReqState req,
                     ReqPlan = ReqPlan req,
                     ReqAttributeConfig = ReqAttributeConfig req,
                     ReqAttributeState = ReqAttributeState req,
                     ReqAttributePlan = ReqAttributePlan req,
                     ReqProviderMeta = ReqProviderMeta req\<rparr>
              in Inr (modifyReq, resp)))))"

text \<open>\<^verbatim>\<open>Attribute.modifyPlan\<close> (lines 381-420), with the response passed and returned.\<close>

definition modifyPlan ::
  "('t, 'v, 'x AttributePlanModifier) Attribute \<Rightarrow> 'x ModifyAttributePlanRequest
    \<Rightarrow> 'x ModifyAttributePlanResponse \<Rightarrow> 'x ModifyAttributePlanResponse" where
  "modifyPlan a req resp =
    (case resolve req resp of
       Inl resp \<Rightarrow> resp
     | Inr (modifyReq, resp) \<Rightarrow> run_PlanModifiers (PlanModifiers a) modifyReq resp)"

subsection \<open>Structural validity\<close>

text \<open>
  The words of the specification for a tree the conversion accepts. An attribute has
  nested attributes when \<open>Attributes\<close> is not nil and holds at least one child, which is
  the test of the source. It is structurally valid when it has either a type or nested
  attributes and not both, and, when it has nested attributes, their nesting mode is one
  of the four and every child is structurally valid.
\<close>

definition has_Attributes :: "('t, 'v, 'm) Attribute \<Rightarrow> bool" where
  "has_Attributes a = (Attributes a \<noteq> None \<and> length (GetAttributes (the (Attributes a))) > 0)"

fun structurally_valid :: "('t, 'v, 'm) Attribute \<Rightarrow> bool" where
  "structurally_valid (MakeAttribute ty attrs d md r op c s dm vs ps) =
    (case attrs of
       None \<Rightarrow> ty \<noteq> None
     | Some (MakeNestedAttributes nm kids mn mx) \<Rightarrow>
         if kids = [] then ty \<noteq> None
         else ty = None
              \<and> nm \<in> {NestingModeSingle, NestingModeList, NestingModeSet, NestingModeMap}
              \<and> list_all (\<lambda>(name, child). structurally_valid child) kids)"

section \<open>Example inputs\<close>

text \<open>
  A leaf attribute of type \<open>''string''\<close>; validators and plan modifiers are numbered here,
  since \<open>Equal\<close> and the conversion never call them.
\<close>

definition ex_leaf :: "nat list \<Rightarrow> nat list \<Rightarrow> (string, nat, nat) Attribute" where
  "ex_leaf vs ps =
    MakeAttribute (Some ''string'') None ''plain'' '''' True False False False '''' vs ps"

text \<open>A leaf with the two descriptions given.\<close>

definition ex_described :: "string \<Rightarrow> string \<Rightarrow> (string, nat, nat) Attribute" where
  "ex_described d md =
    MakeAttribute (Some ''string'') None d md False True False False '''' [] []"

text \<open>
  For the walks: a value stores one flag, set when the value is null, and
  \<open>ex_ToTerraformValue\<close> gives nil for a null value; \<open>ex_Errorf\<close> renders a format as
  it stands; \<open>ex_validator msg\<close> reports one error with summary \<open>msg\<close> at the path of
  its request; \<open>ex_attr\<close> builds an attribute from its type, nested attributes, deprecation
  message and validators; \<open>ex_nested nm\<close> has mode \<open>nm\<close> and one child \<open>a\<close>, a leaf whose
  validator always reports; \<open>ex_config v diags\<close> resolves the path \<open>foo\<close> to \<open>v\<close> with
  \<open>diags\<close> and every other path to a non-null value.
\<close>

definition ex_ToTerraformValue :: "bool Value \<Rightarrow> string + unit option" where
  "ex_ToTerraformValue v =
    (case v of
       types_List elems null \<Rightarrow> Inr (if null then None else Some ())
     | types_Map elems null \<Rightarrow> Inr (if null then None else Some ())
     | other_Value null \<Rightarrow> Inr (if null then None else Some ()))"

definition ex_Errorf :: "string \<Rightarrow> bool fmt_arg list \<Rightarrow> string" where
  "ex_Errorf format args = format"

definition ex_validator :: "string \<Rightarrow> bool AttributeValidator" where
  "ex_validator msg req resp =
    resp\<lparr>Diagnostics := Diagnostics resp @
      [\<lparr>Severity = DiagnosticSeverityError, Summary = msg, Detail = '''',
        Attribute = AttributePath req\<rparr>]\<rparr>"

definition ex_attr ::
  "string option \<Rightarrow> (string, bool AttributeValidator, nat) NestedAttributes option \<Rightarrow> string
    \<Rightarrow> bool AttributeValidator list \<Rightarrow> (string, bool AttributeValidator, nat) Attribute" where
  "ex_attr ty attrs dep vs = MakeAttribute ty attrs '''' '''' False True False False dep vs []"

definition ex_nested ::
  "NestingMode \<Rightarrow> (string, bool AttributeValidator, nat) NestedAttributes" where
  "ex_nested nm =
    MakeNestedAttributes nm
      [(''a'', ex_attr (Some ''string'') None '''' [ex_validator ''child''])] 0 0"

definition ex_req :: "bool GetAttribute \<Rightarrow> bool ValidateAttributeRequest" where
  "ex_req config = \<lparr>AttributePath = [AttributeName ''foo''], AttributeConfig = None, Config = config\<rparr>"

definition ex_config :: "bool Value option \<Rightarrow> Diagnostic list \<Rightarrow> bool GetAttribute" where
  "ex_config v diags path = (if path = [AttributeName ''foo''] then (v, diags) else (Some (other_Value False), []))"

text \<open>
  For \<open>modifyPlan\<close>: \<open>ex_set_plan v\<close> sets the plan value to \<open>v\<close>; \<open>ex_wrap_plan\<close> sets it to
  a list holding the plan value of its request; \<open>ex_report sev msg\<close> adds one diagnostic;
  \<open>ex_plan_attr\<close> builds an attribute from its nested attributes (a leaf when there are
  none) and its plan modifiers; \<open>ex_plan_req path diags\<close> resolves the configuration
  with \<open>diags\<close>, the state to nil and the plan to a non-null value; \<open>ex_warning\<close> is a
  warning an accessor may give.
\<close>

definition ex_set_plan :: "bool Value \<Rightarrow> bool AttributePlanModifier" where
  "ex_set_plan v req resp = resp\<lparr>RespAttributePlan := Some v\<rparr>"

definition ex_wrap_plan :: "bool AttributePlanModifier" where
  "ex_wrap_plan req resp =
    resp\<lparr>RespAttributePlan :=
      (case ReqAttributePlan req of None \<Rightarrow> None | Some v \<Rightarrow> Some (types_List [v] False))\<rparr>"

definition ex_report :: "DiagnosticSeverity \<Rightarrow> string \<Rightarrow> bool AttributePlanModifier" where
  "ex_report sev msg req resp =
    resp\<lparr>RespDiagnostics := RespDiagnostics resp @
      [\<lparr>Severity = sev, Summary = msg, Detail = '''', Attribute = ReqAttributePath req\<rparr>]\<rparr>"

definition ex_plan_attr ::
  "(string, nat, bool AttributePlanModifier) NestedAttributes option
    \<Rightarrow> bool AttributePlanModifier list \<Rightarrow> (string, nat, bool AttributePlanModifier) Attribute" where
  "ex_plan_attr attrs pms =
    MakeAttribute (if attrs = None then Some ''string'' else None) attrs '''' '''' False True
      False False '''' [] pms"

definition ex_plan_req :: "AttributePath \<Rightarrow> Diagnostic list \<Rightarrow> bool ModifyAttributePlanRequest" where
  "ex_plan_req path diags =
    \<lparr>ReqAttributePath = path,
     ReqConfig = (\<lambda>p. (Some (other_Value False), diags)),
     ReqState = (\<lambda>p. (None, [])),
     ReqPlan = (\<lambda>p. (Some (other_Value False), [])),
     ReqAttributeConfig = None, ReqAttributeState = None, ReqAttributePlan = None,
     ReqProviderMeta = (\<lambda>p. (None, []))\<rparr>"

definition ex_plan_resp :: "bool ModifyAttributePlanResponse" where
  "ex_plan_resp = \<lparr>RespAttributePlan = None, RespDiagnostics = [], RespRequiresReplace = False\<rparr>"

definition ex_warning :: Diagnostic where
  "ex_warning =
    \<lparr>Severity = DiagnosticSeverityWarning, Summary = ''resolution'', Detail = '''',
     Attribute = [AttributeName ''foo'']\<rparr>"

text \<open>
  For the conversion: \<open>ex_conv\<close> builds an attribute from its type and nested attributes;
  \<open>ex_kids\<close> are three children, visited in the order \<open>b\<close>, \<open>c\<close>, \<open>a\<close>, of which \<open>c\<close> has
  neither type nor nested attributes.
\<close>

definition ex_conv ::
  "string option \<Rightarrow> (string, nat, nat) NestedAttributes option \<Rightarrow> (string, nat, nat) Attribute" where
  "ex_conv ty attrs = MakeAttribute ty attrs '''' '''' False True False False '''' [] []"

definition ex_kids :: "(string \<times> (string, nat, nat) Attribute) list" where
  "ex_kids =
    [(''b'', ex_conv (Some ''bool'') None),
     (''c'', ex_conv None None),
     (''a'', ex_conv (Some ''string'') None)]"

section \<open>Properties\<close>

subsection \<open>Equal\<close>

text \<open>
  C9. Two attributes that agree on the value type, the nested attributes, the two
  descriptions, the four flags and the deprecation message are \<open>Equal\<close>, whatever their
  validators and plan modifiers are. The comparisons of the type and of the nested
  attributes are methods of the interfaces; the theorem asks of them only that the
  shared type and the shared nested attributes compare equal to themselves.
\<close>

theorem Equal_ignores_Validators_and_PlanModifiers:
  assumes "Type a = Type b" and "Attributes a = Attributes b"
    and "Description a = Description b"
    and "MarkdownDescription a = MarkdownDescription b"
    and "Required a = Required b" and "Optional a = Optional b"
    and "Computed a = Computed b" and "Sensitive a = Sensitive b"
    and "DeprecationMessage a = DeprecationMessage b"
    and "\<forall>t. Type a = Some t \<longrightarrow> TypeEqual t t"
    and "\<forall>n. Attributes a = Some n \<longrightarrow> AttributesEqual n n"
  shows "Equal TypeEqual AttributesEqual a b"
  using assms unfolding Equal_def by auto

theorem Equal_ignores_Validators_and_PlanModifiers_witness:
  "Equal (=) (=) (ex_leaf [1] []) (ex_leaf [2, 3] [4]) \<and> ex_leaf [1] [] \<noteq> ex_leaf [2, 3] [4]"
  using Equal_ignores_Validators_and_PlanModifiers
          [of "ex_leaf [1] []" "ex_leaf [2, 3] [4]" "(=)" "(=)"]
  by (simp add: ex_leaf_def)

subsection \<open>The conversion to the protocol schema\<close>

text \<open>
  C8. In a converted attribute the description is the markdown description, tagged
  markdown, when both descriptions are set; the plain one plays no part. When only one of
  them is set, the description is that one with its own tag.
\<close>

theorem tfprotov6SchemaAttribute_description:
  assumes "tfprotov6SchemaAttribute TerraformType a name path = Inr s"
  shows "(Description a \<noteq> '''' \<and> MarkdownDescription a \<noteq> '''' \<longrightarrow>
            SchemaDescription s = MarkdownDescription a
            \<and> SchemaDescriptionKind s = StringKindMarkdown)
       \<and> (Description a = '''' \<and> MarkdownDescription a \<noteq> '''' \<longrightarrow>
            SchemaDescription s = MarkdownDescription a
            \<and> SchemaDescriptionKind s = StringKindMarkdown)
       \<and> (Description a \<noteq> '''' \<and> MarkdownDescription a = '''' \<longrightarrow>
            SchemaDescription s = Description a
            \<and> SchemaDescriptionKind s = StringKindPlain)"
  using assms
  by (auto simp: Let_def split: if_splits option.splits sum.splits)

theorem tfprotov6SchemaAttribute_description_witness:
  "(\<exists>s. tfprotov6SchemaAttribute (\<lambda>t. t) (ex_described ''p'' ''m'') ''n'' [] = Inr s
        \<and> SchemaDescription s = ''m'' \<and> SchemaDescriptionKind s = StringKindMarkdown)
   \<and> (\<exists>s. tfprotov6SchemaAttribute (\<lambda>t. t) (ex_described '''' ''m'') ''n'' [] = Inr s
        \<and> SchemaDescription s = ''m'' \<and> SchemaDescriptionKind s = StringKindMarkdown)
   \<and> (\<exists>s. tfprotov6SchemaAttribute (\<lambda>t. t) (ex_described ''p'' '''') ''n'' [] = Inr s
        \<and> SchemaDescription s = ''p'' \<and> SchemaDescriptionKind s = StringKindPlain)"
proof -
  have 1: "\<exists>s. tfprotov6SchemaAttribute (\<lambda>t. t) (ex_described d md) ''n'' [] = Inr s" for d md
    by (simp add: ex_described_def Let_def)
  obtain s1 where s1: "tfprotov6SchemaAttribute (\<lambda>t. t) (ex_described ''p'' ''m'') ''n'' [] = Inr s1"
    using 1 by blast
  obtain s2 where s2: "tfprotov6SchemaAttribute (\<lambda>t. t) (ex_described '''' ''m'') ''n'' [] = Inr s2"
    using 1 by blast
  obtain s3 where s3: "tfprotov6SchemaAttribute (\<lambda>t. t) (ex_described ''p'' '''') ''n'' [] = Inr s3"
    using 1 by blast
  show ?thesis
    using tfprotov6SchemaAttribute_description [OF s1]
      tfprotov6SchemaAttribute_description [OF s2]
      tfprotov6SchemaAttribute_description [OF s3] s1 s2 s3
    by (simp add: ex_described_def)
qed

text \<open>The conversion by cases, on an attribute written out.\<close>

lemma object_Nesting_None:
  "(object_Nesting nm = None) = (nm \<notin> {NestingModeSingle, NestingModeList, NestingModeSet, NestingModeMap})"
  by (cases nm) (simp_all add: object_Nesting_def)

lemma tfprotov6SchemaAttribute_both:
  "kids \<noteq> [] \<Longrightarrow>
    tfprotov6SchemaAttribute TerraformType
      (MakeAttribute (Some t) (Some (MakeNestedAttributes nm kids mn mx)) d md r op c s dm vs ps)
      name path
    = Inl (NewErrorf path ''can't have both Attributes and Type set'' [])"
  by (simp add: Let_def)

lemma tfprotov6SchemaAttribute_neither:
  "attrs = None \<or> GetAttributes (the attrs) = [] \<Longrightarrow>
    tfprotov6SchemaAttribute TerraformType (MakeAttribute None attrs d md r op c s dm vs ps)
      name path
    = Inl (NewErrorf path ''must have Attributes or Type set'' [])"
  by (auto simp add: Let_def)

lemma tfprotov6SchemaAttribute_leaf:
  "attrs = None \<or> GetAttributes (the attrs) = [] \<Longrightarrow>
    tfprotov6SchemaAttribute TerraformType (MakeAttribute (Some t) attrs d md r op c s dm vs ps)
      name path
    = Inr (MakeSchemaAttribute name (Some (TerraformType t)) None
        (if md \<noteq> '''' then md else d) r op c s
        (if md \<noteq> '''' then StringKindMarkdown else StringKindPlain) (dm \<noteq> ''''))"
  by (auto simp add: Let_def)

lemma tfprotov6SchemaAttribute_branch:
  "kids \<noteq> [] \<Longrightarrow>
    tfprotov6SchemaAttribute TerraformType
      (MakeAttribute None (Some (MakeNestedAttributes nm kids mn mx)) d md r op c s dm vs ps)
      name path
    = (case object_Nesting nm of
         None \<Rightarrow> Inl (NewErrorf path ''unrecognized nesting mode %v'' [nm])
       | Some nesting \<Rightarrow>
           (case nested_Attributes TerraformType kids path [] of
              Inl err \<Rightarrow> Inl err
            | Inr attributes \<Rightarrow>
                Inr (MakeSchemaAttribute name None
                  (Some (MakeSchemaObject (sort_Slice less_Attributes attributes) nesting mn mx))
                  (if md \<noteq> '''' then md else d) r op c s
                  (if md \<noteq> '''' then StringKindMarkdown else StringKindPlain) (dm \<noteq> ''''))))"
  by (auto simp add: Let_def split: option.splits sum.splits)

text \<open>The conversion fails exactly on the trees that are not structurally valid.\<close>

lemma conversion_fails_iff:
  fixes a :: "('t, 'v, 'm) Attribute" and kids :: "(string \<times> ('t, 'v, 'm) Attribute) list"
  shows "isl (tfprotov6SchemaAttribute TerraformType a name path) = (\<not> structurally_valid a)"
    and "isl (nested_Attributes TerraformType kids path acc)
    = (\<not> list_all (\<lambda>(name, child). structurally_valid child) kids)"
proof (induction TerraformType a name path and TerraformType kids path acc
    rule: tfprotov6SchemaAttribute_nested_Attributes.induct)
  case (1 TerraformType a name path)
  show ?case
  proof (cases a)
    case (MakeAttribute ty attrs d md r op c s dm vs ps)
    show ?thesis
    proof (cases "attrs = None \<or> GetAttributes (the attrs) = []")
      case True
      then show ?thesis
        unfolding MakeAttribute
        by (cases ty; cases attrs; cases "the attrs")
           (simp_all add: tfprotov6SchemaAttribute_neither tfprotov6SchemaAttribute_leaf
              del: tfprotov6SchemaAttribute.simps)
    next
      case False
      then obtain nm kids mn mx where attrs: "attrs = Some (MakeNestedAttributes nm kids mn mx)"
        and kids: "kids \<noteq> []"
        by (cases attrs; cases "the attrs") auto
      show ?thesis
      proof (cases ty)
        case (Some t)
        with attrs kids show ?thesis
          unfolding MakeAttribute
          by (simp add: tfprotov6SchemaAttribute_both del: tfprotov6SchemaAttribute.simps)
      next
        case None
        show ?thesis
        proof (cases "object_Nesting nm")
          case nesting: None
          with None attrs kids show ?thesis
            unfolding MakeAttribute
            using object_Nesting_None [of nm]
            by (simp add: tfprotov6SchemaAttribute_branch del: tfprotov6SchemaAttribute.simps)
        next
          case (Some nesting)
          have "isl (nested_Attributes TerraformType kids path [])
              = (\<not> list_all (\<lambda>(name, child). structurally_valid child) kids)"
            using "1.IH" [OF refl refl refl refl _ _ _ refl, of nesting] None attrs kids Some
            unfolding MakeAttribute by simp
          with None attrs kids Some show ?thesis
            unfolding MakeAttribute
            using object_Nesting_None [of nm]
            by (cases "nested_Attributes TerraformType kids path []")
               (simp_all add: tfprotov6SchemaAttribute_branch
                  del: tfprotov6SchemaAttribute.simps)
        qed
      qed
    qed
  qed
next
  case (2 TerraformType path attributes)
  show ?case by simp
next
  case (3 TerraformType nestedName nestedA rest path attributes)
  then show ?case
    by (auto split: sum.splits simp del: tfprotov6SchemaAttribute.simps)
qed

text \<open>The loop over the children returns the error of the first child that fails.\<close>

lemma nested_Attributes_first_failure:
  assumes "list_all (\<lambda>(name', child').
              \<not> isl (tfprotov6SchemaAttribute TerraformType child' name'
                        (WithAttributeName path name'))) before"
    and "tfprotov6SchemaAttribute TerraformType child name (WithAttributeName path name) = Inl err"
  shows "nested_Attributes TerraformType (before @ (name, child) # after) path acc = Inl err"
  using assms
proof (induction before arbitrary: acc)
  case Nil
  then show ?case by (simp del: tfprotov6SchemaAttribute.simps)
next
  case (Cons k before)
  obtain name' child' where k: "k = (name', child')" by (cases k)
  with Cons.prems obtain s where
    "tfprotov6SchemaAttribute TerraformType child' name' (WithAttributeName path name') = Inr s"
    by (cases "tfprotov6SchemaAttribute TerraformType child' name' (WithAttributeName path name')")
       (simp_all del: tfprotov6SchemaAttribute.simps)
  with Cons k show ?case by (simp del: tfprotov6SchemaAttribute.simps)
qed

text \<open>
  C5. The conversion gives an error, and with it no schema, exactly when the attribute
  is not structurally valid: it or one of its descendants has both a type and nested
  attributes, or neither, or nested attributes with an unrecognized nesting mode. At the
  attribute itself the error carries the path and a message that names the condition. A
  child that fails, after children that converted, makes the whole conversion fail with
  that child's error.
\<close>

theorem tfprotov6SchemaAttribute_errors:
  fixes a :: "('t, 'v, 'm) Attribute"
  shows
   "(isl (tfprotov6SchemaAttribute TerraformType a name path) = (\<not> structurally_valid a))
    \<and> (Type a \<noteq> None \<and> has_Attributes a \<longrightarrow>
         tfprotov6SchemaAttribute TerraformType a name path
         = Inl (NewErrorf path ''can't have both Attributes and Type set'' []))
    \<and> (Type a = None \<and> \<not> has_Attributes a \<longrightarrow>
         tfprotov6SchemaAttribute TerraformType a name path
         = Inl (NewErrorf path ''must have Attributes or Type set'' []))
    \<and> (Type a = None \<and> has_Attributes a
        \<and> GetNestingMode (the (Attributes a))
            \<notin> {NestingModeSingle, NestingModeList, NestingModeSet, NestingModeMap} \<longrightarrow>
         tfprotov6SchemaAttribute TerraformType a name path
         = Inl (NewErrorf path ''unrecognized nesting mode %v''
                  [GetNestingMode (the (Attributes a))]))
    \<and> (Type a = None \<and> has_Attributes a
        \<and> GetNestingMode (the (Attributes a))
            \<in> {NestingModeSingle, NestingModeList, NestingModeSet, NestingModeMap}
        \<and> GetAttributes (the (Attributes a)) = before @ (childName, child) # after
        \<and> list_all (\<lambda>(name', child').
              \<not> isl (tfprotov6SchemaAttribute TerraformType child' name'
                        (WithAttributeName path name'))) before
        \<and> tfprotov6SchemaAttribute TerraformType child childName
              (WithAttributeName path childName) = Inl err \<longrightarrow>
         tfprotov6SchemaAttribute TerraformType a name path = Inl err)"
proof (cases a)
  case (MakeAttribute ty attrs d md r op c s dm vs ps)
  have 1: "isl (tfprotov6SchemaAttribute TerraformType a name path) = (\<not> structurally_valid a)"
    by (rule conversion_fails_iff(1))
  show ?thesis
  proof (cases "has_Attributes a")
    case False
    with MakeAttribute have "attrs = None \<or> GetAttributes (the attrs) = []"
      by (simp add: has_Attributes_def)
    with False show ?thesis
      unfolding MakeAttribute
      using 1 [unfolded MakeAttribute]
      by (cases ty)
         (simp_all add: tfprotov6SchemaAttribute_neither tfprotov6SchemaAttribute_leaf
            del: tfprotov6SchemaAttribute.simps structurally_valid.simps)
  next
    case True
    with MakeAttribute obtain nm kids mn mx
      where attrs: "attrs = Some (MakeNestedAttributes nm kids mn mx)" and kids: "kids \<noteq> []"
      by (cases attrs; cases "the attrs") (auto simp add: has_Attributes_def)
    show ?thesis
    proof (cases ty)
      case (Some t)
      with True attrs kids show ?thesis
        unfolding MakeAttribute
        using 1 [unfolded MakeAttribute]
        by (simp add: tfprotov6SchemaAttribute_both
              del: tfprotov6SchemaAttribute.simps structurally_valid.simps)
    next
      case None
      show ?thesis
      proof (cases "object_Nesting nm")
        case nesting: None
        with None True attrs kids show ?thesis
          unfolding MakeAttribute
          using 1 [unfolded MakeAttribute] object_Nesting_None [of nm]
          by (simp add: tfprotov6SchemaAttribute_branch
                del: tfprotov6SchemaAttribute.simps structurally_valid.simps)
      next
        case (Some nesting)
        have "nested_Attributes TerraformType kids path [] = Inl err"
          if "kids = before @ (childName, child) # after"
            and "list_all (\<lambda>(name', child').
              \<not> isl (tfprotov6SchemaAttribute TerraformType child' name'
                        (WithAttributeName path name'))) before"
            and "tfprotov6SchemaAttribute TerraformType child childName
              (WithAttributeName path childName) = Inl err"
          unfolding that(1) using that(2,3) by (rule nested_Attributes_first_failure)
        with None True attrs kids Some show ?thesis
          unfolding MakeAttribute
          using 1 [unfolded MakeAttribute] object_Nesting_None [of nm]
          by (simp add: tfprotov6SchemaAttribute_branch
                del: tfprotov6SchemaAttribute.simps structurally_valid.simps)
      qed
    qed
  qed
qed

theorem tfprotov6SchemaAttribute_errors_witness:
  "tfprotov6SchemaAttribute (\<lambda>t. t)
      (ex_conv (Some ''string'') (Some (MakeNestedAttributes NestingModeSingle ex_kids 0 0)))
      ''root'' [AttributeName ''root'']
    = Inl (NewErrorf [AttributeName ''root''] ''can't have both Attributes and Type set'' [])
   \<and> tfprotov6SchemaAttribute (\<lambda>t. t) (ex_conv None None) ''root'' [AttributeName ''root'']
    = Inl (NewErrorf [AttributeName ''root''] ''must have Attributes or Type set'' [])
   \<and> tfprotov6SchemaAttribute (\<lambda>t. t)
      (ex_conv None (Some (MakeNestedAttributes NestingModeUnknown ex_kids 0 0)))
      ''root'' [AttributeName ''root'']
    = Inl (NewErrorf [AttributeName ''root''] ''unrecognized nesting mode %v'' [NestingModeUnknown])
   \<and> tfprotov6SchemaAttribute (\<lambda>t. t)
      (ex_conv None (Some (MakeNestedAttributes NestingModeList ex_kids 1 2)))
      ''root'' [AttributeName ''root'']
    = Inl (NewErrorf [AttributeName ''root'', AttributeName ''c'']
             ''must have Attributes or Type set'' [])
   \<and> \<not> isl (tfprotov6SchemaAttribute (\<lambda>t. t) (ex_conv (Some ''string'') None)
              ''root'' [AttributeName ''root''])"
proof -
  let ?p = "[AttributeName ''root'']"
  let ?both = "ex_conv (Some ''string'') (Some (MakeNestedAttributes NestingModeSingle ex_kids 0 0))"
  let ?unknown = "ex_conv None (Some (MakeNestedAttributes NestingModeUnknown ex_kids 0 0))"
  let ?branch = "ex_conv None (Some (MakeNestedAttributes NestingModeList ex_kids 1 2))"
  let ?f = "\<lambda>t::string. t"
  have 1: "tfprotov6SchemaAttribute ?f ?both ''root'' ?p
      = Inl (NewErrorf ?p ''can't have both Attributes and Type set'' [])"
    using tfprotov6SchemaAttribute_errors [where a = ?both and TerraformType = ?f
        and name = "''root''" and path = ?p]
    by (simp add: ex_conv_def ex_kids_def has_Attributes_def
          del: tfprotov6SchemaAttribute.simps)
  have 2: "tfprotov6SchemaAttribute ?f (ex_conv None None) ''root'' ?p
      = Inl (NewErrorf ?p ''must have Attributes or Type set'' [])"
    using tfprotov6SchemaAttribute_errors [where a = "ex_conv None None" and TerraformType = ?f
        and name = "''root''" and path = ?p]
    by (simp add: ex_conv_def has_Attributes_def del: tfprotov6SchemaAttribute.simps)
  have 3: "tfprotov6SchemaAttribute ?f ?unknown ''root'' ?p
      = Inl (NewErrorf ?p ''unrecognized nesting mode %v'' [NestingModeUnknown])"
    using tfprotov6SchemaAttribute_errors [where a = ?unknown and TerraformType = ?f
        and name = "''root''" and path = ?p]
    by (simp add: ex_conv_def ex_kids_def has_Attributes_def
          del: tfprotov6SchemaAttribute.simps)
  have ok: "\<not> isl (tfprotov6SchemaAttribute ?f (ex_conv (Some ty) None) name path)" for ty name path
    using tfprotov6SchemaAttribute_errors [where a = "ex_conv (Some ty) None"
        and TerraformType = ?f and name = name and path = path]
    by (simp add: ex_conv_def del: tfprotov6SchemaAttribute.simps)
  have child: "tfprotov6SchemaAttribute ?f (ex_conv None None) ''c'' (WithAttributeName ?p ''c'')
      = Inl (NewErrorf [AttributeName ''root'', AttributeName ''c'']
               ''must have Attributes or Type set'' [])"
    using tfprotov6SchemaAttribute_errors [where a = "ex_conv None None" and TerraformType = ?f
        and name = "''c''" and path = "WithAttributeName ?p ''c''"]
    by (simp add: ex_conv_def has_Attributes_def WithAttributeName_def
          del: tfprotov6SchemaAttribute.simps)
  have 4: "tfprotov6SchemaAttribute ?f ?branch ''root'' ?p
      = Inl (NewErrorf [AttributeName ''root'', AttributeName ''c'']
               ''must have Attributes or Type set'' [])"
    using tfprotov6SchemaAttribute_errors [where a = ?branch and TerraformType = ?f
        and name = "''root''" and path = ?p and before = "[(''b'', ex_conv (Some ''bool'') None)]"
        and childName = "''c''" and child = "ex_conv None None"
        and after = "[(''a'', ex_conv (Some ''string'') None)]"
        and err = "NewErrorf [AttributeName ''root'', AttributeName ''c'']
               ''must have Attributes or Type set'' []"]
      child ok
    by (simp add: ex_conv_def [of None "Some _"] ex_kids_def has_Attributes_def
          del: tfprotov6SchemaAttribute.simps)
  from 1 2 3 4 ok show ?thesis by simp
qed

subsection \<open>validate\<close>

text \<open>
  C4. An attribute that has both a type and a non-empty set of nested attributes, or
  neither, makes \<open>validate\<close> add exactly one diagnostic to the response and return: an
  error with summary \<open>Invalid Attribute Definition\<close> at the path of the request, whose
  detail says that this is a problem with the provider. The result does not depend on the
  validators nor on the children: none of them runs.
\<close>

theorem validate_invalid_definition:
  assumes "(Type a \<noteq> None) = (Attributes a \<noteq> None \<and> length (GetAttributes (the (Attributes a))) > 0)"
  shows "validate ToTerraformValue Errorf a req resp =
          resp\<lparr>Diagnostics := Diagnostics resp @
            [\<lparr>Severity = DiagnosticSeverityError,
              Summary = ''Invalid Attribute Definition'',
              Detail = (if Type a = None
                then ''Attribute must define either Attributes or Type. This is always a problem with the provider and should be reported to the provider developer.''
                else ''Attribute cannot define both Attributes and Type. This is always a problem with the provider and should be reported to the provider developer.''),
              Attribute = AttributePath req\<rparr>]\<rparr>"
  using assms by (subst validate.simps) auto

theorem validate_invalid_definition_witness:
  "validate ex_ToTerraformValue ex_Errorf
      (ex_attr None None ''use bar instead'' [ex_validator ''v''])
      (ex_req (ex_config (Some (other_Value False)) [])) \<lparr>Diagnostics = []\<rparr>
    = \<lparr>Diagnostics =
        [\<lparr>Severity = DiagnosticSeverityError,
          Summary = ''Invalid Attribute Definition'',
          Detail = ''Attribute must define either Attributes or Type. This is always a problem with the provider and should be reported to the provider developer.'',
          Attribute = [AttributeName ''foo'']\<rparr>]\<rparr>
   \<and> validate ex_ToTerraformValue ex_Errorf
      (ex_attr (Some ''string'') (Some (ex_nested NestingModeSingle)) '''' [ex_validator ''v''])
      (ex_req (ex_config (Some (other_Value False)) [])) \<lparr>Diagnostics = []\<rparr>
    = \<lparr>Diagnostics =
        [\<lparr>Severity = DiagnosticSeverityError,
          Summary = ''Invalid Attribute Definition'',
          Detail = ''Attribute cannot define both Attributes and Type. This is always a problem with the provider and should be reported to the provider developer.'',
          Attribute = [AttributeName ''foo'']\<rparr>]\<rparr>"
  using validate_invalid_definition
          [of "ex_attr None None ''use bar instead'' [ex_validator ''v'']"
              ex_ToTerraformValue ex_Errorf
              "ex_req (ex_config (Some (other_Value False)) [])" "\<lparr>Diagnostics = []\<rparr>"]
        validate_invalid_definition
          [of "ex_attr (Some ''string'') (Some (ex_nested NestingModeSingle)) '''' [ex_validator ''v'']"
              ex_ToTerraformValue ex_Errorf
              "ex_req (ex_config (Some (other_Value False)) [])" "\<lparr>Diagnostics = []\<rparr>"]
  by (simp add: ex_attr_def ex_nested_def ex_req_def)

text \<open>
  C3, as the claim states it, fails: for a branch in set mode whose child's validator
  always reports, \<open>validate\<close> returns no diagnostic at all.
\<close>

theorem validate_set_counterexample:
  "validate ex_ToTerraformValue ex_Errorf (ex_attr None (Some (ex_nested NestingModeSet)) '''' [])
      (ex_req (ex_config (Some (other_Value False)) [])) \<lparr>Diagnostics = []\<rparr>
    = \<lparr>Diagnostics = []\<rparr>"
  by (simp add: ex_attr_def ex_nested_def ex_req_def ex_config_def DiagsHasErrors_def deprecation_def)

text \<open>
  C3, amended. For a branch in set mode whose value resolves without error, \<open>validate\<close>
  runs the validators of the attribute itself and the deprecation check, and nothing
  else: no child is visited and no diagnostic is added for the set.
\<close>

theorem validate_set_skips_children:
  assumes "Type a = None" and "Attributes a = Some na"
    and "GetNestingMode na = NestingModeSet" and "GetAttributes na \<noteq> []"
    and "\<not> DiagsHasErrors (snd (Config req (AttributePath req)))"
  shows "validate ToTerraformValue Errorf a req resp =
          (let req' = req\<lparr>AttributeConfig := fst (Config req (AttributePath req))\<rparr>;
               resp' = resp\<lparr>Diagnostics := Diagnostics resp @ snd (Config req (AttributePath req))\<rparr>
           in deprecation ToTerraformValue a req' (AttributeConfig req')
                (fold (\<lambda>validator resp. validator req' resp) (Validators a) resp'))"
  using assms by (subst validate.simps) (simp add: Let_def)

theorem validate_set_skips_children_witness:
  "validate ex_ToTerraformValue ex_Errorf
      (ex_attr None (Some (ex_nested NestingModeSet)) ''use bar instead'' [ex_validator ''v''])
      (ex_req (ex_config (Some (other_Value False)) [])) \<lparr>Diagnostics = []\<rparr>
    = \<lparr>Diagnostics =
        [\<lparr>Severity = DiagnosticSeverityError, Summary = ''v'', Detail = '''',
          Attribute = [AttributeName ''foo'']\<rparr>,
         \<lparr>Severity = DiagnosticSeverityWarning, Summary = ''Attribute Deprecated'',
          Detail = ''use bar instead'', Attribute = [AttributeName ''foo'']\<rparr>]\<rparr>"
  using validate_set_skips_children
          [of "ex_attr None (Some (ex_nested NestingModeSet)) ''use bar instead'' [ex_validator ''v'']"
              "ex_nested NestingModeSet"
              "ex_req (ex_config (Some (other_Value False)) [])"
              ex_ToTerraformValue ex_Errorf "\<lparr>Diagnostics = []\<rparr>"]
  by (simp add: ex_attr_def ex_nested_def ex_req_def ex_config_def DiagsHasErrors_def
        deprecation_def ex_ToTerraformValue_def ex_validator_def Let_def)

text \<open>
  \<open>validate\<close> in one equation with the stage after the resolution, and the deprecation
  check as the last step of that stage whenever the switch does not return.
\<close>

lemma validate_unfold:
  "validate ToTerraformValue Errorf a req resp =
      (if (Attributes a = None \<or> length (GetAttributes (the (Attributes a))) = 0) \<and> Type a = None
       then resp\<lparr>Diagnostics := Diagnostics resp @
         [\<lparr>Severity = DiagnosticSeverityError,
           Summary = ''Invalid Attribute Definition'',
           Detail = ''Attribute must define either Attributes or Type. This is always a problem with the provider and should be reported to the provider developer.'',
           Attribute = AttributePath req\<rparr>]\<rparr>
       else if Attributes a \<noteq> None \<and> length (GetAttributes (the (Attributes a))) > 0 \<and> Type a \<noteq> None
       then resp\<lparr>Diagnostics := Diagnostics resp @
         [\<lparr>Severity = DiagnosticSeverityError,
           Summary = ''Invalid Attribute Definition'',
           Detail = ''Attribute cannot define both Attributes and Type. This is always a problem with the provider and should be reported to the provider developer.'',
           Attribute = AttributePath req\<rparr>]\<rparr>
       else if DiagsHasErrors (snd (Config req (AttributePath req)))
       then resp\<lparr>Diagnostics := Diagnostics resp @ snd (Config req (AttributePath req))\<rparr>
       else validate_resolved ToTerraformValue Errorf a
              (req\<lparr>AttributeConfig := fst (Config req (AttributePath req))\<rparr>)
              (resp\<lparr>Diagnostics := Diagnostics resp @ snd (Config req (AttributePath req))\<rparr>))"
  by (subst validate.simps) (simp add: Let_def del: validate.simps validate_resolved.simps)

lemma deprecation_without_message:
  "deprecation ToTerraformValue (MakeAttribute ty attrs d md r op c s '''' vs ps) req v resp = resp"
  by (simp add: deprecation_def)

lemma validate_resolved_deprecation:
  assumes "attrs = None
         \<or> GetNestingMode (the attrs) = NestingModeSingle
         \<or> GetNestingMode (the attrs) = NestingModeSet
         \<or> (GetNestingMode (the attrs) = NestingModeList
              \<and> (\<exists>elems x. AttributeConfig req = Some (types_List elems x)))
         \<or> (GetNestingMode (the attrs) = NestingModeMap
              \<and> (\<exists>elems x. AttributeConfig req = Some (types_Map elems x)))"
  shows "validate_resolved ToTerraformValue Errorf (MakeAttribute ty attrs d md r op c s dm vs ps) req resp
        = deprecation ToTerraformValue (MakeAttribute ty attrs d md r op c s dm vs ps) req
            (AttributeConfig req)
            (validate_resolved ToTerraformValue Errorf
               (MakeAttribute ty attrs d md r op c s '''' vs ps) req resp)"
proof (cases attrs)
  case None
  then show ?thesis
    by (simp add: Let_def deprecation_without_message del: validate.simps)
next
  case (Some na)
  from assms Some consider
      "GetNestingMode na = NestingModeSingle"
    | "GetNestingMode na = NestingModeSet"
    | elems x where "GetNestingMode na = NestingModeList" "AttributeConfig req = Some (types_List elems x)"
    | elems x where "GetNestingMode na = NestingModeMap" "AttributeConfig req = Some (types_Map elems x)"
    by auto
  then show ?thesis
  proof cases
    case 1
    with Some show ?thesis
      by (simp add: Let_def deprecation_without_message del: validate.simps)
  next
    case 2
    with Some show ?thesis
      by (simp add: Let_def deprecation_without_message del: validate.simps)
  next
    case 3
    with Some show ?thesis
      by (simp add: Let_def deprecation_without_message del: validate.simps)
  next
    case 4
    with Some show ?thesis
      by (simp add: Let_def deprecation_without_message del: validate.simps)
  qed
qed

text \<open>
  C10. When the accessor gives diagnostics without an error among them (warnings only,
  say), \<open>validate\<close> on a well-formed attribute appends them and goes on with the rest of
  the function: the validators, the walk of the children and the deprecation check, on the
  resolved value. \<open>modifyPlan\<close> likewise appends the diagnostics of the three accessors
  and runs the plan modifiers on the three resolved values. With an error among the
  diagnostics both return at once with the diagnostics appended.
\<close>

theorem warnings_do_not_stop_the_walk:
  "(\<not> ((Attributes a = None \<or> length (GetAttributes (the (Attributes a))) = 0) \<and> Type a = None)
     \<and> \<not> (Attributes a \<noteq> None \<and> length (GetAttributes (the (Attributes a))) > 0 \<and> Type a \<noteq> None)
     \<longrightarrow>
       (\<not> DiagsHasErrors (snd (Config req (AttributePath req))) \<longrightarrow>
          validate ToTerraformValue Errorf a req resp =
            validate_resolved ToTerraformValue Errorf a
              (req\<lparr>AttributeConfig := fst (Config req (AttributePath req))\<rparr>)
              (resp\<lparr>Diagnostics := Diagnostics resp @ snd (Config req (AttributePath req))\<rparr>))
     \<and> (DiagsHasErrors (snd (Config req (AttributePath req))) \<longrightarrow>
          validate ToTerraformValue Errorf a req resp =
            resp\<lparr>Diagnostics := Diagnostics resp @ snd (Config req (AttributePath req))\<rparr>))
   \<and> (\<not> DiagsHasErrors (snd (ReqConfig mreq (ReqAttributePath mreq)))
      \<and> \<not> DiagsHasErrors (snd (ReqState mreq (ReqAttributePath mreq)))
      \<and> \<not> DiagsHasErrors (snd (ReqPlan mreq (ReqAttributePath mreq))) \<longrightarrow>
        modifyPlan b mreq mresp =
          run_PlanModifiers (PlanModifiers b)
            \<lparr>ReqAttributePath = ReqAttributePath mreq,
             ReqConfig = ReqConfig mreq, ReqState = ReqState mreq, ReqPlan = ReqPlan mreq,
             ReqAttributeConfig = fst (ReqConfig mreq (ReqAttributePath mreq)),
             ReqAttributeState = fst (ReqState mreq (ReqAttributePath mreq)),
             ReqAttributePlan = fst (ReqPlan mreq (ReqAttributePath mreq)),
             ReqProviderMeta = ReqProviderMeta mreq\<rparr>
            (mresp\<lparr>RespDiagnostics := RespDiagnostics mresp
               @ snd (ReqConfig mreq (ReqAttributePath mreq))
               @ snd (ReqState mreq (ReqAttributePath mreq))
               @ snd (ReqPlan mreq (ReqAttributePath mreq))\<rparr>))
   \<and> (DiagsHasErrors (snd (ReqConfig mreq (ReqAttributePath mreq))) \<longrightarrow>
        modifyPlan b mreq mresp =
          mresp\<lparr>RespDiagnostics := RespDiagnostics mresp
            @ snd (ReqConfig mreq (ReqAttributePath mreq))\<rparr>)"
proof -
  note v = validate_unfold [of ToTerraformValue Errorf a req resp]
  have m: "\<not> DiagsHasErrors (snd (ReqConfig mreq (ReqAttributePath mreq)))
      \<and> \<not> DiagsHasErrors (snd (ReqState mreq (ReqAttributePath mreq)))
      \<and> \<not> DiagsHasErrors (snd (ReqPlan mreq (ReqAttributePath mreq))) \<longrightarrow>
        modifyPlan b mreq mresp =
          run_PlanModifiers (PlanModifiers b)
            \<lparr>ReqAttributePath = ReqAttributePath mreq,
             ReqConfig = ReqConfig mreq, ReqState = ReqState mreq, ReqPlan = ReqPlan mreq,
             ReqAttributeConfig = fst (ReqConfig mreq (ReqAttributePath mreq)),
             ReqAttributeState = fst (ReqState mreq (ReqAttributePath mreq)),
             ReqAttributePlan = fst (ReqPlan mreq (ReqAttributePath mreq)),
             ReqProviderMeta = ReqProviderMeta mreq\<rparr>
            (mresp\<lparr>RespDiagnostics := RespDiagnostics mresp
               @ snd (ReqConfig mreq (ReqAttributePath mreq))
               @ snd (ReqState mreq (ReqAttributePath mreq))
               @ snd (ReqPlan mreq (ReqAttributePath mreq))\<rparr>)"
    by (simp add: modifyPlan_def resolve_def Let_def)
  have e: "DiagsHasErrors (snd (ReqConfig mreq (ReqAttributePath mreq))) \<longrightarrow>
        modifyPlan b mreq mresp =
          mresp\<lparr>RespDiagnostics := RespDiagnostics mresp
            @ snd (ReqConfig mreq (ReqAttributePath mreq))\<rparr>"
    by (simp add: modifyPlan_def resolve_def Let_def)
  show ?thesis
    using m e by (simp only: v) auto
qed

theorem warnings_do_not_stop_the_walk_witness:
  "validate ex_ToTerraformValue ex_Errorf
      (ex_attr None (Some (ex_nested NestingModeSingle)) '''' [ex_validator ''v''])
      (ex_req (ex_config (Some (other_Value False)) [ex_warning])) \<lparr>Diagnostics = []\<rparr>
    = \<lparr>Diagnostics =
        [ex_warning,
         \<lparr>Severity = DiagnosticSeverityError, Summary = ''v'', Detail = '''',
          Attribute = [AttributeName ''foo'']\<rparr>,
         \<lparr>Severity = DiagnosticSeverityError, Summary = ''child'', Detail = '''',
          Attribute = [AttributeName ''foo'', AttributeName ''a'']\<rparr>]\<rparr>
   \<and> modifyPlan (ex_plan_attr None [ex_set_plan (other_Value True)])
        (ex_plan_req [AttributeName ''foo''] [ex_warning]) ex_plan_resp
    = \<lparr>RespAttributePlan = Some (other_Value True), RespDiagnostics = [ex_warning],
       RespRequiresReplace = False\<rparr>"
proof -
  let ?a = "ex_attr None (Some (ex_nested NestingModeSingle)) '''' [ex_validator ''v'']"
  let ?req = "ex_req (ex_config (Some (other_Value False)) [ex_warning])"
  let ?b = "ex_plan_attr None [ex_set_plan (other_Value True)]"
  let ?mreq = "ex_plan_req [AttributeName ''foo''] [ex_warning]"
  note w = warnings_do_not_stop_the_walk
      [where a = ?a and req = ?req and resp = "\<lparr>Diagnostics = []\<rparr>"
         and ToTerraformValue = ex_ToTerraformValue and Errorf = ex_Errorf
         and b = ?b and mreq = ?mreq and mresp = ex_plan_resp]
  have valid: "\<not> ((Attributes ?a = None \<or> length (GetAttributes (the (Attributes ?a))) = 0) \<and> Type ?a = None)
     \<and> \<not> (Attributes ?a \<noteq> None \<and> length (GetAttributes (the (Attributes ?a))) > 0 \<and> Type ?a \<noteq> None)"
    by (simp add: ex_attr_def ex_nested_def)
  have noerr: "\<not> DiagsHasErrors (snd (Config ?req (AttributePath ?req)))"
    by (simp add: ex_req_def ex_config_def ex_warning_def DiagsHasErrors_def)
  have mnoerr: "\<not> DiagsHasErrors (snd (ReqConfig ?mreq (ReqAttributePath ?mreq)))
      \<and> \<not> DiagsHasErrors (snd (ReqState ?mreq (ReqAttributePath ?mreq)))
      \<and> \<not> DiagsHasErrors (snd (ReqPlan ?mreq (ReqAttributePath ?mreq)))"
    by (simp add: ex_plan_req_def ex_warning_def DiagsHasErrors_def)
  from w valid noerr have 1: "validate ex_ToTerraformValue ex_Errorf ?a ?req \<lparr>Diagnostics = []\<rparr> =
      validate_resolved ex_ToTerraformValue ex_Errorf ?a
        (?req\<lparr>AttributeConfig := fst (Config ?req (AttributePath ?req))\<rparr>)
        (\<lparr>Diagnostics = []\<rparr>\<lparr>Diagnostics := Diagnostics \<lparr>Diagnostics = []\<rparr> @ snd (Config ?req (AttributePath ?req))\<rparr>)"
    by blast
  from w mnoerr have 2: "modifyPlan ?b ?mreq ex_plan_resp =
          run_PlanModifiers (PlanModifiers ?b)
            \<lparr>ReqAttributePath = ReqAttributePath ?mreq,
             ReqConfig = ReqConfig ?mreq, ReqState = ReqState ?mreq, ReqPlan = ReqPlan ?mreq,
             ReqAttributeConfig = fst (ReqConfig ?mreq (ReqAttributePath ?mreq)),
             ReqAttributeState = fst (ReqState ?mreq (ReqAttributePath ?mreq)),
             ReqAttributePlan = fst (ReqPlan ?mreq (ReqAttributePath ?mreq)),
             ReqProviderMeta = ReqProviderMeta ?mreq\<rparr>
            (ex_plan_resp\<lparr>RespDiagnostics := RespDiagnostics ex_plan_resp
               @ snd (ReqConfig ?mreq (ReqAttributePath ?mreq))
               @ snd (ReqState ?mreq (ReqAttributePath ?mreq))
               @ snd (ReqPlan ?mreq (ReqAttributePath ?mreq))\<rparr>)"
    by blast
  show ?thesis
    unfolding 1 2
    by (simp add: ex_attr_def ex_nested_def ex_req_def ex_config_def ex_validator_def
          ex_plan_attr_def ex_plan_req_def ex_plan_resp_def ex_set_plan_def
          DiagsHasErrors_def deprecation_def Let_def WithAttributeName_def ex_warning_def)
qed

text \<open>
  C7, as the claim states it, fails. The attribute has a deprecation message and its value
  resolves to a non-null value, yet no warning is added: once for a branch in list mode
  whose value is not a list (the walk returns with its own error), once for an attribute
  with neither type nor nested attributes (the function returns before resolving).
\<close>

theorem validate_deprecation_counterexample:
  "validate ex_ToTerraformValue ex_Errorf
      (ex_attr None (Some (ex_nested NestingModeList)) ''use bar instead'' [])
      (ex_req (ex_config (Some (other_Value False)) [])) \<lparr>Diagnostics = []\<rparr>
    = \<lparr>Diagnostics =
        [\<lparr>Severity = DiagnosticSeverityError, Summary = ''Attribute Validation Error'',
          Detail = ''Attribute validation cannot walk schema. Report this to the provider developer:\<newline>\<newline>unknown attribute value type (%T) for nesting mode (%T) at path: %s'',
          Attribute = [AttributeName ''foo'']\<rparr>]\<rparr>
   \<and> validate ex_ToTerraformValue ex_Errorf
      (ex_attr None None ''use bar instead'' [])
      (ex_req (ex_config (Some (other_Value False)) [])) \<lparr>Diagnostics = []\<rparr>
    = \<lparr>Diagnostics =
        [\<lparr>Severity = DiagnosticSeverityError, Summary = ''Invalid Attribute Definition'',
          Detail = ''Attribute must define either Attributes or Type. This is always a problem with the provider and should be reported to the provider developer.'',
          Attribute = [AttributeName ''foo'']\<rparr>]\<rparr>
   \<and> ex_config (Some (other_Value False)) [] [AttributeName ''foo'']
        = (Some (other_Value False), [])
   \<and> ex_ToTerraformValue (other_Value False) = Inr (Some ())"
  by (simp add: ex_attr_def ex_nested_def ex_req_def ex_config_def DiagsHasErrors_def
        cannot_walk_def ex_Errorf_def ex_ToTerraformValue_def)

text \<open>
  C7, amended. Take an attribute with a non-empty deprecation message that is well-formed
  (a type or a non-empty set of nested attributes, not both), whose value resolves
  without error, and whose switch does not return (no nested attributes; single or set
  mode; list mode with a list value; map mode with a map value). Then \<open>validate\<close> gives
  what it gives for the same attribute without the message, and after it exactly one
  warning with summary \<open>Attribute Deprecated\<close>, the message as detail and the path of the
  request, when the resolved value is not nil and its terraform value is not nil; it gives
  exactly what it gives without the message when the resolved value is nil or its
  terraform value is nil. Nothing is asked of the diagnostics the validators and the
  children produce: their errors do not keep the warning away.
\<close>

theorem validate_deprecation_warning:
  assumes "\<not> ((attrs = None \<or> length (GetAttributes (the attrs)) = 0) \<and> ty = None)"
    and "\<not> (attrs \<noteq> None \<and> length (GetAttributes (the attrs)) > 0 \<and> ty \<noteq> None)"
    and "Config req (AttributePath req) = (v, diags)"
    and "\<not> DiagsHasErrors diags"
    and "attrs = None
         \<or> GetNestingMode (the attrs) = NestingModeSingle
         \<or> GetNestingMode (the attrs) = NestingModeSet
         \<or> (GetNestingMode (the attrs) = NestingModeList \<and> (\<exists>elems x. v = Some (types_List elems x)))
         \<or> (GetNestingMode (the attrs) = NestingModeMap \<and> (\<exists>elems x. v = Some (types_Map elems x)))"
    and "dm \<noteq> ''''"
  shows "((\<exists>tf. v \<noteq> None \<and> ToTerraformValue (the v) = Inr (Some tf)) \<longrightarrow>
           validate ToTerraformValue Errorf (MakeAttribute ty attrs d md r op c s dm vs ps) req resp =
             (let without = validate ToTerraformValue Errorf
                              (MakeAttribute ty attrs d md r op c s '''' vs ps) req resp
              in without\<lparr>Diagnostics := Diagnostics without @
                   [\<lparr>Severity = DiagnosticSeverityWarning,
                     Summary = ''Attribute Deprecated'',
                     Detail = dm,
                     Attribute = AttributePath req\<rparr>]\<rparr>))
       \<and> (v = None \<or> ToTerraformValue (the v) = Inr None \<longrightarrow>
           validate ToTerraformValue Errorf (MakeAttribute ty attrs d md r op c s dm vs ps) req resp =
             validate ToTerraformValue Errorf (MakeAttribute ty attrs d md r op c s '''' vs ps) req resp)"
proof -
  let ?req = "req\<lparr>AttributeConfig := v\<rparr>"
  let ?resp = "resp\<lparr>Diagnostics := Diagnostics resp @ diags\<rparr>"
  have with_dm: "validate ToTerraformValue Errorf (MakeAttribute ty attrs d md r op c s dm vs ps) req resp
      = validate_resolved ToTerraformValue Errorf (MakeAttribute ty attrs d md r op c s dm vs ps) ?req ?resp"
    using assms(1-4)
    by (subst validate_unfold) (auto simp del: validate.simps validate_resolved.simps)
  have without: "validate ToTerraformValue Errorf (MakeAttribute ty attrs d md r op c s '''' vs ps) req resp
      = validate_resolved ToTerraformValue Errorf (MakeAttribute ty attrs d md r op c s '''' vs ps) ?req ?resp"
    using assms(1-4)
    by (subst validate_unfold) (auto simp del: validate.simps validate_resolved.simps)
  have step: "validate_resolved ToTerraformValue Errorf (MakeAttribute ty attrs d md r op c s dm vs ps) ?req ?resp
      = deprecation ToTerraformValue (MakeAttribute ty attrs d md r op c s dm vs ps) ?req v
          (validate_resolved ToTerraformValue Errorf (MakeAttribute ty attrs d md r op c s '''' vs ps) ?req ?resp)"
    using validate_resolved_deprecation [of attrs ?req ToTerraformValue Errorf ty d md r op c s dm vs ps ?resp]
      assms(5) by (simp del: validate.simps validate_resolved.simps)
  show ?thesis
    unfolding with_dm without step
    using assms(6) by (auto simp add: deprecation_def Let_def simp del: validate_resolved.simps)
qed

theorem validate_deprecation_warning_witness:
  "validate ex_ToTerraformValue ex_Errorf
      (ex_attr None (Some (ex_nested NestingModeList)) ''use bar instead'' [])
      (ex_req (ex_config (Some (types_List [other_Value False, other_Value False] False)) []))
      \<lparr>Diagnostics = []\<rparr>
    = \<lparr>Diagnostics =
        [\<lparr>Severity = DiagnosticSeverityError, Summary = ''child'', Detail = '''',
          Attribute = [AttributeName ''foo'', ElementKeyInt 0, AttributeName ''a'']\<rparr>,
         \<lparr>Severity = DiagnosticSeverityError, Summary = ''child'', Detail = '''',
          Attribute = [AttributeName ''foo'', ElementKeyInt 1, AttributeName ''a'']\<rparr>,
         \<lparr>Severity = DiagnosticSeverityWarning, Summary = ''Attribute Deprecated'',
          Detail = ''use bar instead'', Attribute = [AttributeName ''foo'']\<rparr>]\<rparr>
   \<and> validate ex_ToTerraformValue ex_Errorf
      (ex_attr (Some ''string'') None ''use bar instead'' [])
      (ex_req (ex_config (Some (other_Value True)) [])) \<lparr>Diagnostics = []\<rparr>
    = \<lparr>Diagnostics = []\<rparr>"
proof -
  let ?list = "types_List [other_Value False, other_Value False] False"
  let ?req1 = "ex_req (ex_config (Some ?list) [])"
  let ?req2 = "ex_req (ex_config (Some (other_Value True)) [])"
  note t1 = validate_deprecation_warning
      [where ty = "None :: string option" and attrs = "Some (ex_nested NestingModeList)"
         and req = ?req1 and v = "Some ?list" and diags = "[]"
         and dm = "''use bar instead''" and ToTerraformValue = ex_ToTerraformValue
         and Errorf = ex_Errorf and d = "''''" and md = "''''" and r = False and op = True
         and c = False and s = False and vs = "[]" and ps = "[]"
         and resp = "\<lparr>Diagnostics = []\<rparr>", THEN conjunct1, rule_format]
  note t2 = validate_deprecation_warning
      [where ty = "Some ''string''"
         and attrs = "None :: (string, bool AttributeValidator, nat) NestedAttributes option"
         and req = ?req2 and v = "Some (other_Value True)" and diags = "[]"
         and dm = "''use bar instead''" and ToTerraformValue = ex_ToTerraformValue
         and Errorf = ex_Errorf and d = "''''" and md = "''''" and r = False and op = True
         and c = False and s = False and vs = "[]" and ps = "[]"
         and resp = "\<lparr>Diagnostics = []\<rparr>", THEN conjunct2, rule_format]
  have 1: "validate ex_ToTerraformValue ex_Errorf
      (ex_attr None (Some (ex_nested NestingModeList)) ''use bar instead'' []) ?req1
      \<lparr>Diagnostics = []\<rparr>
    = (let without = validate ex_ToTerraformValue ex_Errorf
          (ex_attr None (Some (ex_nested NestingModeList)) '''' []) ?req1 \<lparr>Diagnostics = []\<rparr>
       in without\<lparr>Diagnostics := Diagnostics without @
            [\<lparr>Severity = DiagnosticSeverityWarning, Summary = ''Attribute Deprecated'',
              Detail = ''use bar instead'', Attribute = AttributePath ?req1\<rparr>]\<rparr>)"
    unfolding ex_attr_def
    by (rule t1)
       (auto simp add: ex_nested_def ex_req_def ex_config_def DiagsHasErrors_def
          ex_ToTerraformValue_def)
  have 2: "validate ex_ToTerraformValue ex_Errorf
      (ex_attr (Some ''string'') None ''use bar instead'' []) ?req2 \<lparr>Diagnostics = []\<rparr>
    = validate ex_ToTerraformValue ex_Errorf
      (ex_attr (Some ''string'') None '''' []) ?req2 \<lparr>Diagnostics = []\<rparr>"
    unfolding ex_attr_def
    by (rule t2)
       (simp_all add: ex_req_def ex_config_def DiagsHasErrors_def ex_ToTerraformValue_def)
  show ?thesis
    unfolding 1 2
    by (simp add: ex_attr_def ex_nested_def ex_req_def ex_config_def ex_validator_def
          DiagsHasErrors_def deprecation_def Let_def WithAttributeName_def
          WithElementKeyInt_def upt_rec)
qed

subsection \<open>modifyPlan\<close>

text \<open>
  C1, as the claim states it, fails: \<open>modifyPlan\<close> on a branch in single mode leaves the
  response as it was, although the plan modifier of its child reports an error whenever
  it is run.
\<close>

theorem modifyPlan_recursion_counterexample:
  "modifyPlan
      (ex_plan_attr
        (Some (MakeNestedAttributes NestingModeSingle
          [(''a'', ex_plan_attr None [ex_report DiagnosticSeverityError ''child''])] 0 0)) [])
      (ex_plan_req [AttributeName ''foo''] []) ex_plan_resp
    = ex_plan_resp
   \<and> modifyPlan (ex_plan_attr None [ex_report DiagnosticSeverityError ''child''])
      (ex_plan_req [AttributeName ''foo'', AttributeName ''a''] []) ex_plan_resp
    = ex_plan_resp\<lparr>RespDiagnostics :=
        [\<lparr>Severity = DiagnosticSeverityError, Summary = ''child'', Detail = '''',
          Attribute = [AttributeName ''foo'', AttributeName ''a'']\<rparr>]\<rparr>"
  by (simp add: modifyPlan_def resolve_def ex_plan_attr_def ex_plan_req_def ex_plan_resp_def
        ex_report_def DiagsHasErrors_def Let_def)

text \<open>
  C1, amended. \<open>modifyPlan\<close> does not recurse: its result is the same for any two
  attributes with the same plan modifiers, whatever their nested attributes and nesting
  mode are. No child is visited by this function.
\<close>

theorem modifyPlan_visits_no_child:
  "modifyPlan (MakeAttribute ty attrs d md r op c s dm vs pms) req resp
    = modifyPlan (MakeAttribute ty' attrs' d' md' r' op' c' s' dm' vs' pms) req resp"
  by (simp add: modifyPlan_def split: sum.splits)

text \<open>The loop of the plan modifiers, with one more modifier at its end, and after an error.\<close>

lemma run_PlanModifiers_snoc:
  "run_PlanModifiers (ms @ [m]) q p =
    (let r = run_PlanModifiers ms q p in
     if ms \<noteq> [] \<and> DiagsHasErrors (RespDiagnostics r) then r
     else m (q\<lparr>ReqAttributePlan :=
                 (if ms = [] then ReqAttributePlan q else RespAttributePlan r)\<rparr>) r)"
proof (induction ms arbitrary: q p)
  case Nil
  show ?case by (simp add: Let_def)
next
  case (Cons x xs)
  show ?case
    by (cases "xs = []") (simp_all add: Cons.IH Let_def)
qed

lemma run_PlanModifiers_stops:
  "ms \<noteq> [] \<Longrightarrow> DiagsHasErrors (RespDiagnostics (run_PlanModifiers ms q p))
    \<Longrightarrow> run_PlanModifiers (ms @ ms') q p = run_PlanModifiers ms q p"
proof (induction ms arbitrary: q p)
  case Nil
  then show ?case by simp
next
  case (Cons x xs)
  show ?case
  proof (cases "xs = []")
    case True
    with Cons.prems show ?thesis by (auto simp add: Let_def split: if_splits)
  next
    case False
    with Cons show ?thesis by (simp add: Let_def split: if_splits)
  qed
qed

text \<open>
  C2. Once the three values are resolved, the plan modifiers run in the order of the
  sequence: the modifier after the sequence \<open>ms\<close> is called exactly when \<open>ms\<close> is empty or has
  run without an error in the response's diagnostics, with the response \<open>ms\<close> left and a
  request whose plan value is the one of that response (the resolved plan value for the
  first modifier); and its result is the result. When the diagnostics hold an error after
  \<open>ms\<close>, no modifier after \<open>ms\<close> runs: the result is the response as \<open>ms\<close> left it.
\<close>

theorem modifyPlan_pipeline:
  assumes "resolve req resp = Inr (modifyReq, resp0)"
  shows "modifyPlan (MakeAttribute ty attrs d md r op c s dm vs (ms @ [m])) req resp =
          (let before = modifyPlan (MakeAttribute ty attrs d md r op c s dm vs ms) req resp in
           if ms \<noteq> [] \<and> DiagsHasErrors (RespDiagnostics before) then before
           else m (modifyReq\<lparr>ReqAttributePlan :=
                     (if ms = [] then ReqAttributePlan modifyReq
                      else RespAttributePlan before)\<rparr>) before)
       \<and> (ms \<noteq> [] \<and> DiagsHasErrors (RespDiagnostics
              (modifyPlan (MakeAttribute ty attrs d md r op c s dm vs ms) req resp)) \<longrightarrow>
            modifyPlan (MakeAttribute ty attrs d md r op c s dm vs (ms @ rest)) req resp
            = modifyPlan (MakeAttribute ty attrs d md r op c s dm vs ms) req resp)"
  using assms
  by (simp add: modifyPlan_def run_PlanModifiers_snoc run_PlanModifiers_stops
        del: run_PlanModifiers.simps)

theorem modifyPlan_pipeline_witness:
  "RespAttributePlan
      (modifyPlan (ex_plan_attr None [ex_set_plan (other_Value True), ex_wrap_plan])
        (ex_plan_req [AttributeName ''foo''] []) ex_plan_resp)
    = Some (types_List [other_Value True] False)
   \<and> modifyPlan
        (ex_plan_attr None [ex_report DiagnosticSeverityError ''stop'', ex_set_plan (other_Value True)])
        (ex_plan_req [AttributeName ''foo''] []) ex_plan_resp
    = ex_plan_resp\<lparr>RespDiagnostics :=
        [\<lparr>Severity = DiagnosticSeverityError, Summary = ''stop'', Detail = '''',
          Attribute = [AttributeName ''foo'']\<rparr>]\<rparr>"
proof -
  let ?modifyReq =
    "(ex_plan_req [AttributeName ''foo''] [])
       \<lparr>ReqAttributeConfig := Some (other_Value False),
        ReqAttributePlan := Some (other_Value False)\<rparr>"
  have h: "resolve (ex_plan_req [AttributeName ''foo''] []) ex_plan_resp
            = Inr (?modifyReq, ex_plan_resp)"
    by (simp add: resolve_def ex_plan_req_def ex_plan_resp_def DiagsHasErrors_def Let_def)
  have before: "modifyPlan (ex_plan_attr None [ex_report DiagnosticSeverityError ''stop''])
          (ex_plan_req [AttributeName ''foo''] []) ex_plan_resp
        = ex_plan_resp\<lparr>RespDiagnostics :=
            [\<lparr>Severity = DiagnosticSeverityError, Summary = ''stop'', Detail = '''',
              Attribute = [AttributeName ''foo'']\<rparr>]\<rparr>"
    unfolding modifyPlan_def h
    by (simp add: ex_plan_attr_def ex_report_def ex_plan_req_def
          ex_plan_resp_def DiagsHasErrors_def)
  note feed = modifyPlan_pipeline [OF h, where ms = "[ex_set_plan (other_Value True)]"
        and m = ex_wrap_plan and ty = "Some ''string''" and attrs = None and d = "''''"
        and md = "''''" and r = False and op = True and c = False and s = False
        and dm = "''''" and vs = "[]::nat list", THEN conjunct1]
  note stop = modifyPlan_pipeline [OF h, where ms = "[ex_report DiagnosticSeverityError ''stop'']"
        and rest = "[ex_set_plan (other_Value True)]" and ty = "Some ''string''"
        and attrs = None and d = "''''"
        and md = "''''" and r = False and op = True and c = False and s = False
        and dm = "''''" and vs = "[]::nat list", THEN conjunct2]
  have 1: "RespAttributePlan
      (modifyPlan (ex_plan_attr None [ex_set_plan (other_Value True), ex_wrap_plan])
        (ex_plan_req [AttributeName ''foo''] []) ex_plan_resp)
    = Some (types_List [other_Value True] False)"
    using feed unfolding ex_plan_attr_def modifyPlan_def h
    by (simp add: ex_set_plan_def ex_wrap_plan_def ex_plan_req_def
          ex_plan_resp_def DiagsHasErrors_def Let_def)
  have 2: "modifyPlan
        (ex_plan_attr None [ex_report DiagnosticSeverityError ''stop'', ex_set_plan (other_Value True)])
        (ex_plan_req [AttributeName ''foo''] []) ex_plan_resp
      = modifyPlan (ex_plan_attr None [ex_report DiagnosticSeverityError ''stop''])
        (ex_plan_req [AttributeName ''foo''] []) ex_plan_resp"
  proof -
    have "DiagsHasErrors (RespDiagnostics
            (modifyPlan (ex_plan_attr None [ex_report DiagnosticSeverityError ''stop''])
              (ex_plan_req [AttributeName ''foo''] []) ex_plan_resp))"
      unfolding before by (simp add: DiagsHasErrors_def ex_plan_resp_def)
    with stop show ?thesis by (simp add: ex_plan_attr_def)
  qed
  show ?thesis using 1 2 before by simp
qed

end
